theory Spec2Isabelle
  imports Main
begin

section \<open>The infrastructure declarations of \<open>lib/demo-cdk-stack.ts\<close>\<close>

text \<open>
  The repository declares two stacks by straight-line construction: each
  \<open>new C(this, id, props)\<close> adds a resource descriptor to the stack under
  construction, and a handful of method calls (\<open>addIngressRule\<close>,
  \<open>configureHealthCheck\<close>, \<open>autoScaleTaskCount\<close>, \<open>scaleOnCpuUtilization\<close>,
  \<open>scaleOnMemoryUtilization\<close>, \<open>Tags.of(..).add\<close>, \<open>addCapacity\<close>) extend a
  descriptor declared earlier.  The model passes the stack explicitly: every
  constructor call returns the handle of the new descriptor together with the
  updated stack, every method call returns the updated stack.  The resource
  library itself is not part of the repository; its calls are modelled as
  recording exactly the arguments they are given, in call order.

  What the library creates on its own behalf is therefore not recorded: the
  parameter lookups behind a machine image, which the library places in the
  stack beside the group that needs them, and the outputs that the
  load-balanced service pattern declares inside itself.  The \<open>children\<close> of a
  stack are the declarations the constructor makes, in the order it makes
  them.  The properties below read a descriptor by its id, the descriptors of
  one kind in their order, or the run of outputs a stack ends with; none
  reads a position in the list or its length.
\<close>

subsection \<open>Enumerations and factory values of the resource library\<close>

datatype SubnetType = PUBLIC | PRIVATE_WITH_EGRESS | PRIVATE_ISOLATED

datatype InstanceClass = T3 | M4 | C4 | T2 | R4 | C3 | M3 | R5

datatype InstanceSize = MICRO | LARGE | XLARGE | XLARGE24

datatype InstanceType = InstanceType_of InstanceClass InstanceSize

datatype PostgresEngineVersion = Postgres_VER_15

datatype SqlServerEngineVersion = SqlServer_VER_15

datatype DatabaseInstanceEngine =
    postgres PostgresEngineVersion
  | sqlServerEe SqlServerEngineVersion

datatype LicenseModel = LICENSE_INCLUDED | BRING_YOUR_OWN_LICENSE | GENERAL_PUBLIC_LICENSE

datatype RemovalPolicy = DESTROY | RETAIN | SNAPSHOT

datatype MachineImage = latestAmazonLinux2

datatype ContainerImage = fromRegistry string

datatype ManagedPolicy = fromAwsManagedPolicyName string

datatype Principal = ServicePrincipal string

text \<open>
  A handle names a descriptor of the stack by its construct id.  An attribute
  that is only known after deployment (\<open>vpc.vpcId\<close>,
  \<open>database.dbInstanceEndpointAddress\<close>, ...) is a reference: the handle and
  the path of property names read from it.
\<close>

type_synonym handle = string

datatype reference = Attr handle "string list"

text \<open>
  The source of a firewall rule: any IPv4 address, a security group declared
  in the stack, or the \<open>n\<close>-th security group found on a service's
  connections (\<open>service.connections.securityGroups[n]\<close>).
\<close>

datatype Peer =
    anyIpv4
  | SecurityGroupPeer handle
  | ConnectionsSecurityGroup handle nat

datatype Port = tcp nat

subsection \<open>Property records\<close>

record SubnetConfiguration =
  sc_name :: string
  sc_subnetType :: SubnetType
  cidrMask :: nat

record VpcProps =
  maxAzs :: nat
  natGateways :: nat
  subnetConfiguration :: "SubnetConfiguration list"

record SubnetSelection =
  subnetType :: SubnetType

record ClusterProps =
  cl_vpc :: handle
  containerInsights :: "bool option"
  clusterName :: "string option"

record SecurityGroupProps =
  sg_vpc :: handle
  sg_description :: string
  allowAllOutbound :: bool

record IngressRule =
  rule_peer :: Peer
  rule_port :: Port
  rule_description :: string

record DatabaseInstanceProps =
  engine :: DatabaseInstanceEngine
  db_instanceType :: InstanceType
  db_vpc :: handle
  db_vpcSubnets :: SubnetSelection
  securityGroups :: "handle list"
  databaseName :: "string option"
  allocatedStorage :: nat
  maxAllocatedStorage :: nat
  multiAz :: bool
  licenseModel :: "LicenseModel option"
  deletionProtection :: bool
  removalPolicy :: RemovalPolicy

record TaskImageOptions =
  ti_image :: ContainerImage
  containerPort :: nat
  environment :: "(string \<times> reference) list"

record ApplicationLoadBalancedFargateServiceProps =
  fs_cluster :: handle
  cpu :: nat
  memoryLimitMiB :: nat
  desiredCount :: nat
  taskImageOptions :: TaskImageOptions
  publicLoadBalancer :: bool

record HealthCheck =
  path :: string
  healthyHttpCodes :: string

record EnableScalingProps =
  scale_minCapacity :: nat
  scale_maxCapacity :: nat

record UtilizationScalingProps =
  targetUtilizationPercent :: nat

datatype ScalingPolicy =
    CpuUtilization UtilizationScalingProps
  | MemoryUtilization UtilizationScalingProps

record RoleProps =
  assumedBy :: Principal
  managedPolicies :: "ManagedPolicy list"

record AutoScalingGroupProps =
  asg_vpc :: handle
  asg_vpcSubnets :: SubnetSelection
  asg_instanceType :: InstanceType
  machineImage :: MachineImage
  asg_role :: handle
  securityGroup :: handle
  minCapacity :: nat
  maxCapacity :: nat
  desiredCapacity :: nat

record AddCapacityOptions =
  cap_instanceType :: InstanceType
  cap_minCapacity :: nat
  cap_maxCapacity :: nat
  cap_desiredCapacity :: nat

record CfnOutputProps =
  out_value :: reference
  out_description :: string

record Environment =
  account :: "string option"
  region :: "string option"

record StackProps =
  env :: "Environment option"
  description :: "string option"

subsection \<open>Resource descriptors and the stack\<close>

text \<open>
  A descriptor holds the properties it was declared with and whatever later
  method calls attached to it: the ingress rules of a security group, the
  capacity pools of a cluster, the health check, scaling range and scaling
  policies of the load-balanced service.
\<close>

datatype Construct =
    Vpc VpcProps
  | Cluster ClusterProps "(string \<times> AddCapacityOptions) list"
  | SecurityGroup SecurityGroupProps "IngressRule list"
  | DatabaseInstance DatabaseInstanceProps
  | ApplicationLoadBalancedFargateService
      ApplicationLoadBalancedFargateServiceProps
      "HealthCheck option"
      "EnableScalingProps option"
      "(string \<times> ScalingPolicy) list"
  | Role RoleProps
  | AutoScalingGroup AutoScalingGroupProps
  | CfnOutput CfnOutputProps

record Stack =
  stackId :: string
  stackProps :: "StackProps option"
  children :: "(string \<times> Construct) list"
  tags :: "(handle \<times> string \<times> string) list"

record App =
  stackIds :: "string list"

definition new_App :: App where
  "new_App = \<lparr>stackIds = []\<rparr>"

text \<open>\<open>super(scope, id, props)\<close>: an empty stack, registered in its scope.\<close>

definition Stack_super :: "App \<Rightarrow> string \<Rightarrow> StackProps option \<Rightarrow> Stack \<times> App" where
  "Stack_super scope ident props =
     (\<lparr>stackId = ident, stackProps = props, children = [], tags = []\<rparr>,
      scope\<lparr>stackIds := stackIds scope @ [ident]\<rparr>)"

text \<open>\<open>new C(this, id, props)\<close>: the descriptor is appended, its id is the handle.\<close>

definition declare_child :: "Stack \<Rightarrow> string \<Rightarrow> Construct \<Rightarrow> handle \<times> Stack" where
  "declare_child this ident c = (ident, this\<lparr>children := children this @ [(ident, c)]\<rparr>)"

text \<open>A method call on a handle rewrites the descriptor stored under it.\<close>

definition update_child :: "Stack \<Rightarrow> handle \<Rightarrow> (Construct \<Rightarrow> Construct) \<Rightarrow> Stack" where
  "update_child this h f =
     this\<lparr>children := map (\<lambda>(i, c). if i = h then (i, f c) else (i, c)) (children this)\<rparr>"

definition new_Vpc :: "Stack \<Rightarrow> string \<Rightarrow> VpcProps \<Rightarrow> handle \<times> Stack" where
  "new_Vpc this ident props = declare_child this ident (Vpc props)"

definition new_Cluster :: "Stack \<Rightarrow> string \<Rightarrow> ClusterProps \<Rightarrow> handle \<times> Stack" where
  "new_Cluster this ident props = declare_child this ident (Cluster props [])"

definition new_SecurityGroup :: "Stack \<Rightarrow> string \<Rightarrow> SecurityGroupProps \<Rightarrow> handle \<times> Stack" where
  "new_SecurityGroup this ident props = declare_child this ident (SecurityGroup props [])"

definition new_DatabaseInstance ::
    "Stack \<Rightarrow> string \<Rightarrow> DatabaseInstanceProps \<Rightarrow> handle \<times> Stack" where
  "new_DatabaseInstance this ident props = declare_child this ident (DatabaseInstance props)"

definition new_ApplicationLoadBalancedFargateService ::
    "Stack \<Rightarrow> string \<Rightarrow> ApplicationLoadBalancedFargateServiceProps \<Rightarrow> handle \<times> Stack" where
  "new_ApplicationLoadBalancedFargateService this ident props =
     declare_child this ident (ApplicationLoadBalancedFargateService props None None [])"

definition new_Role :: "Stack \<Rightarrow> string \<Rightarrow> RoleProps \<Rightarrow> handle \<times> Stack" where
  "new_Role this ident props = declare_child this ident (Role props)"

definition new_AutoScalingGroup ::
    "Stack \<Rightarrow> string \<Rightarrow> AutoScalingGroupProps \<Rightarrow> handle \<times> Stack" where
  "new_AutoScalingGroup this ident props = declare_child this ident (AutoScalingGroup props)"

definition new_CfnOutput :: "Stack \<Rightarrow> string \<Rightarrow> CfnOutputProps \<Rightarrow> Stack" where
  "new_CfnOutput this ident props = snd (declare_child this ident (CfnOutput props))"

fun add_rule :: "IngressRule \<Rightarrow> Construct \<Rightarrow> Construct" where
  "add_rule r (SecurityGroup p rs) = SecurityGroup p (rs @ [r])"
| "add_rule r c = c"

definition addIngressRule :: "Stack \<Rightarrow> handle \<Rightarrow> Peer \<Rightarrow> Port \<Rightarrow> string \<Rightarrow> Stack" where
  "addIngressRule this sg p port d =
     update_child this sg (add_rule \<lparr>rule_peer = p, rule_port = port, rule_description = d\<rparr>)"

fun set_health_check :: "HealthCheck \<Rightarrow> Construct \<Rightarrow> Construct" where
  "set_health_check hc (ApplicationLoadBalancedFargateService p h s ps) =
     ApplicationLoadBalancedFargateService p (Some hc) s ps"
| "set_health_check hc c = c"

definition configureHealthCheck :: "Stack \<Rightarrow> handle \<Rightarrow> HealthCheck \<Rightarrow> Stack" where
  "configureHealthCheck this svc hc = update_child this svc (set_health_check hc)"

fun set_scaling :: "EnableScalingProps \<Rightarrow> Construct \<Rightarrow> Construct" where
  "set_scaling sp (ApplicationLoadBalancedFargateService p h s ps) =
     ApplicationLoadBalancedFargateService p h (Some sp) ps"
| "set_scaling sp c = c"

text \<open>
  \<open>autoScaleTaskCount\<close> returns the scalable target of the service; the
  policies added to it are kept with the service, so the target's handle is
  the service's.
\<close>

definition autoScaleTaskCount :: "Stack \<Rightarrow> handle \<Rightarrow> EnableScalingProps \<Rightarrow> handle \<times> Stack" where
  "autoScaleTaskCount this svc sp = (svc, update_child this svc (set_scaling sp))"

fun add_policy :: "string \<times> ScalingPolicy \<Rightarrow> Construct \<Rightarrow> Construct" where
  "add_policy pol (ApplicationLoadBalancedFargateService p h s ps) =
     ApplicationLoadBalancedFargateService p h s (ps @ [pol])"
| "add_policy pol c = c"

definition scaleOnCpuUtilization ::
    "Stack \<Rightarrow> handle \<Rightarrow> string \<Rightarrow> UtilizationScalingProps \<Rightarrow> Stack" where
  "scaleOnCpuUtilization this scaling ident props =
     update_child this scaling (add_policy (ident, CpuUtilization props))"

definition scaleOnMemoryUtilization ::
    "Stack \<Rightarrow> handle \<Rightarrow> string \<Rightarrow> UtilizationScalingProps \<Rightarrow> Stack" where
  "scaleOnMemoryUtilization this scaling ident props =
     update_child this scaling (add_policy (ident, MemoryUtilization props))"

fun add_pool :: "string \<times> AddCapacityOptions \<Rightarrow> Construct \<Rightarrow> Construct" where
  "add_pool pool (Cluster p pools) = Cluster p (pools @ [pool])"
| "add_pool pool c = c"

definition addCapacity :: "Stack \<Rightarrow> handle \<Rightarrow> string \<Rightarrow> AddCapacityOptions \<Rightarrow> Stack" where
  "addCapacity this cl ident opts = update_child this cl (add_pool (ident, opts))"

text \<open>\<open>cdk.Tags.of(target).add(key, value)\<close>\<close>

definition Tags_of_add :: "Stack \<Rightarrow> handle \<Rightarrow> string \<Rightarrow> string \<Rightarrow> Stack" where
  "Tags_of_add this target k v = this\<lparr>tags := tags this @ [(target, k, v)]\<rparr>"

subsection \<open>\<open>DemoCdkStack\<close>: the primary application stack\<close>

definition DemoCdkStack :: "App \<Rightarrow> string \<Rightarrow> StackProps option \<Rightarrow> Stack \<times> App" where
  "DemoCdkStack scope ident props =
    (let (this, scope) = Stack_super scope ident props;
         (vpc, this) = new_Vpc this ''DemoVpc''
           \<lparr>maxAzs = 2, natGateways = 1,
            subnetConfiguration =
              [\<lparr>sc_name = ''Public'', sc_subnetType = PUBLIC, cidrMask = 24\<rparr>,
               \<lparr>sc_name = ''Private'', sc_subnetType = PRIVATE_WITH_EGRESS, cidrMask = 24\<rparr>,
               \<lparr>sc_name = ''Isolated'', sc_subnetType = PRIVATE_ISOLATED, cidrMask = 24\<rparr>]\<rparr>;
         (cluster, this) = new_Cluster this ''DemoCluster''
           \<lparr>cl_vpc = vpc, containerInsights = Some True, clusterName = None\<rparr>;
         (dbSecurityGroup, this) = new_SecurityGroup this ''DbSecurityGroup''
           \<lparr>sg_vpc = vpc, sg_description = ''Security group for RDS instance'',
            allowAllOutbound = False\<rparr>;
         (database, this) = new_DatabaseInstance this ''DemoDatabase''
           \<lparr>engine = postgres Postgres_VER_15,
            db_instanceType = InstanceType_of T3 MICRO,
            db_vpc = vpc,
            db_vpcSubnets = \<lparr>subnetType = PRIVATE_ISOLATED\<rparr>,
            securityGroups = [dbSecurityGroup],
            databaseName = Some ''demodb'',
            allocatedStorage = 20,
            maxAllocatedStorage = 100,
            multiAz = False,
            licenseModel = None,
            deletionProtection = False,
            removalPolicy = DESTROY\<rparr>;
         (fargateService, this) = new_ApplicationLoadBalancedFargateService this ''DemoWebApp''
           \<lparr>fs_cluster = cluster, cpu = 256, memoryLimitMiB = 512, desiredCount = 2,
            taskImageOptions =
              \<lparr>ti_image = fromRegistry ''nginx:alpine'', containerPort = 80,
               environment =
                 [(''DB_HOST'', Attr database [''dbInstanceEndpointAddress'']),
                  (''DB_PORT'', Attr database [''dbInstanceEndpointPort''])]\<rparr>,
            publicLoadBalancer = True\<rparr>;
         this = addIngressRule this dbSecurityGroup
           (ConnectionsSecurityGroup fargateService 0) (tcp 5432)
           ''Allow Fargate service to connect to PostgreSQL'';
         this = configureHealthCheck this fargateService
           \<lparr>path = ''/'', healthyHttpCodes = ''200''\<rparr>;
         (scaling, this) = autoScaleTaskCount this fargateService
           \<lparr>scale_minCapacity = 2, scale_maxCapacity = 10\<rparr>;
         this = scaleOnCpuUtilization this scaling ''CpuScaling''
           \<lparr>targetUtilizationPercent = 70\<rparr>;
         this = scaleOnMemoryUtilization this scaling ''MemoryScaling''
           \<lparr>targetUtilizationPercent = 70\<rparr>;
         ami = latestAmazonLinux2;
         (ec2SecurityGroup, this) = new_SecurityGroup this ''Ec2SecurityGroup''
           \<lparr>sg_vpc = vpc, sg_description = ''Security group for EC2 instances'',
            allowAllOutbound = True\<rparr>;
         this = addIngressRule this ec2SecurityGroup anyIpv4 (tcp 22) ''Allow SSH access'';
         (ec2Role, this) = new_Role this ''Ec2InstanceRole''
           \<lparr>assumedBy = ServicePrincipal ''ec2.amazonaws.com'',
            managedPolicies = [fromAwsManagedPolicyName ''AmazonSSMManagedInstanceCore'']\<rparr>;
         (webTierAsg, this) = new_AutoScalingGroup this ''WebTierAsg''
           \<lparr>asg_vpc = vpc,
            asg_vpcSubnets = \<lparr>subnetType = PRIVATE_WITH_EGRESS\<rparr>,
            asg_instanceType = InstanceType_of M4 LARGE,
            machineImage = ami, asg_role = ec2Role, securityGroup = ec2SecurityGroup,
            minCapacity = 2, maxCapacity = 8, desiredCapacity = 2\<rparr>;
         this = Tags_of_add this webTierAsg ''Tier'' ''Web'';
         this = Tags_of_add this webTierAsg ''InstanceGeneration'' ''Previous'';
         (appTierAsg, this) = new_AutoScalingGroup this ''AppTierAsg''
           \<lparr>asg_vpc = vpc,
            asg_vpcSubnets = \<lparr>subnetType = PRIVATE_WITH_EGRESS\<rparr>,
            asg_instanceType = InstanceType_of C4 XLARGE,
            machineImage = ami, asg_role = ec2Role, securityGroup = ec2SecurityGroup,
            minCapacity = 2, maxCapacity = 6, desiredCapacity = 2\<rparr>;
         this = Tags_of_add this appTierAsg ''Tier'' ''Application'';
         this = Tags_of_add this appTierAsg ''InstanceGeneration'' ''Previous'';
         (workerTierAsg, this) = new_AutoScalingGroup this ''WorkerTierAsg''
           \<lparr>asg_vpc = vpc,
            asg_vpcSubnets = \<lparr>subnetType = PRIVATE_WITH_EGRESS\<rparr>,
            asg_instanceType = InstanceType_of T2 LARGE,
            machineImage = ami, asg_role = ec2Role, securityGroup = ec2SecurityGroup,
            minCapacity = 1, maxCapacity = 10, desiredCapacity = 3\<rparr>;
         this = Tags_of_add this workerTierAsg ''Tier'' ''Worker'';
         this = Tags_of_add this workerTierAsg ''InstanceGeneration'' ''Previous'';
         (memoryTierAsg, this) = new_AutoScalingGroup this ''MemoryTierAsg''
           \<lparr>asg_vpc = vpc,
            asg_vpcSubnets = \<lparr>subnetType = PRIVATE_WITH_EGRESS\<rparr>,
            asg_instanceType = InstanceType_of R4 LARGE,
            machineImage = ami, asg_role = ec2Role, securityGroup = ec2SecurityGroup,
            minCapacity = 1, maxCapacity = 4, desiredCapacity = 2\<rparr>;
         this = Tags_of_add this memoryTierAsg ''Tier'' ''Memory'';
         this = Tags_of_add this memoryTierAsg ''InstanceGeneration'' ''Previous'';
         (ecsEc2Cluster, this) = new_Cluster this ''LegacyEcsCluster''
           \<lparr>cl_vpc = vpc, containerInsights = None,
            clusterName = Some ''legacy-ec2-cluster''\<rparr>;
         this = addCapacity this ecsEc2Cluster ''LegacyCapacity''
           \<lparr>cap_instanceType = InstanceType_of C3 XLARGE,
            cap_minCapacity = 2, cap_maxCapacity = 6, cap_desiredCapacity = 2\<rparr>;
         this = addCapacity this ecsEc2Cluster ''LegacyCapacityM3''
           \<lparr>cap_instanceType = InstanceType_of M3 LARGE,
            cap_minCapacity = 1, cap_maxCapacity = 4, cap_desiredCapacity = 2\<rparr>;
         this = new_CfnOutput this ''LoadBalancerDNS''
           \<lparr>out_value = Attr fargateService [''loadBalancer'', ''loadBalancerDnsName''],
            out_description = ''Application Load Balancer DNS name''\<rparr>;
         this = new_CfnOutput this ''VpcId''
           \<lparr>out_value = Attr vpc [''vpcId''], out_description = ''VPC ID''\<rparr>;
         this = new_CfnOutput this ''DatabaseEndpoint''
           \<lparr>out_value = Attr database [''dbInstanceEndpointAddress''],
            out_description = ''RDS Database endpoint''\<rparr>;
         this = new_CfnOutput this ''WebTierAsgName''
           \<lparr>out_value = Attr webTierAsg [''autoScalingGroupName''],
            out_description = ''Web tier ASG name (M4 instances)''\<rparr>;
         this = new_CfnOutput this ''LegacyEcsClusterName''
           \<lparr>out_value = Attr ecsEc2Cluster [''clusterName''],
            out_description = ''Legacy ECS cluster with EC2 capacity''\<rparr>
     in (this, scope))"

subsection \<open>\<open>SqlServerBahrainStack\<close>: the regional database stack\<close>

definition SqlServerBahrainStack :: "App \<Rightarrow> string \<Rightarrow> StackProps option \<Rightarrow> Stack \<times> App" where
  "SqlServerBahrainStack scope ident props =
    (let (this, scope) = Stack_super scope ident props;
         (vpc, this) = new_Vpc this ''SqlServerVpc''
           \<lparr>maxAzs = 2, natGateways = 1,
            subnetConfiguration =
              [\<lparr>sc_name = ''Public'', sc_subnetType = PUBLIC, cidrMask = 24\<rparr>,
               \<lparr>sc_name = ''Private'', sc_subnetType = PRIVATE_WITH_EGRESS, cidrMask = 24\<rparr>,
               \<lparr>sc_name = ''Isolated'', sc_subnetType = PRIVATE_ISOLATED, cidrMask = 24\<rparr>]\<rparr>;
         (sqlServerSecurityGroup, this) = new_SecurityGroup this ''SqlServerSecurityGroup''
           \<lparr>sg_vpc = vpc, sg_description = ''Security group for SQL Server RDS instance'',
            allowAllOutbound = False\<rparr>;
         (sqlServerDatabase, this) = new_DatabaseInstance this ''SqlServerEnterprise''
           \<lparr>engine = sqlServerEe SqlServer_VER_15,
            db_instanceType = InstanceType_of R5 XLARGE24,
            db_vpc = vpc,
            db_vpcSubnets = \<lparr>subnetType = PRIVATE_ISOLATED\<rparr>,
            securityGroups = [sqlServerSecurityGroup],
            databaseName = None,
            allocatedStorage = 200,
            maxAllocatedStorage = 1000,
            multiAz = True,
            licenseModel = Some LICENSE_INCLUDED,
            deletionProtection = False,
            removalPolicy = DESTROY\<rparr>;
         this = new_CfnOutput this ''SqlServerEndpoint''
           \<lparr>out_value = Attr sqlServerDatabase [''dbInstanceEndpointAddress''],
            out_description = ''SQL Server Enterprise endpoint''\<rparr>;
         this = new_CfnOutput this ''SqlServerVpcId''
           \<lparr>out_value = Attr vpc [''vpcId''], out_description = ''SQL Server VPC ID''\<rparr>
     in (this, scope))"

subsection \<open>\<open>bin/demo-cdk.ts\<close>: the application that roots both stacks\<close>

definition demo_cdk :: "Stack \<times> Stack \<times> App" where
  "demo_cdk =
    (let app = new_App;
         (demo, app) = DemoCdkStack app ''DemoCdkStack''
           (Some \<lparr>env = None, description = None\<rparr>);
         (bahrain, app) = SqlServerBahrainStack app ''SqlServerBahrainStack''
           (Some \<lparr>env = Some \<lparr>account = None, region = Some ''me-south-1''\<rparr>,
                  description =
                    Some ''SQL Server Enterprise Multi-AZ (db.r5.24xlarge) in Bahrain region''\<rparr>)
     in (demo, bahrain, app))"

subsection \<open>Reading a finished stack\<close>

definition lookup :: "Stack \<Rightarrow> handle \<Rightarrow> Construct option" where
  "lookup this h = map_of (children this) h"

fun ingressOf :: "Construct option \<Rightarrow> IngressRule list" where
  "ingressOf (Some (SecurityGroup p rs)) = rs"
| "ingressOf c = []"

text \<open>
  A security group admits a source on a port when one of its ingress rules
  names that source and that port.
\<close>

definition admits :: "Stack \<Rightarrow> handle \<Rightarrow> Peer \<Rightarrow> Port \<Rightarrow> bool" where
  "admits this sg p port =
     list_ex (\<lambda>r. rule_peer r = p \<and> rule_port r = port) (ingressOf (lookup this sg))"

fun the_asg :: "string \<times> Construct \<Rightarrow> (string \<times> AutoScalingGroupProps) list" where
  "the_asg (i, AutoScalingGroup p) = [(i, p)]"
| "the_asg (i, c) = []"

definition autoScalingGroups :: "Stack \<Rightarrow> (string \<times> AutoScalingGroupProps) list" where
  "autoScalingGroups this = concat (map the_asg (children this))"

fun the_db :: "string \<times> Construct \<Rightarrow> (string \<times> DatabaseInstanceProps) list" where
  "the_db (i, DatabaseInstance p) = [(i, p)]"
| "the_db (i, c) = []"

definition databaseInstances :: "Stack \<Rightarrow> (string \<times> DatabaseInstanceProps) list" where
  "databaseInstances this = concat (map the_db (children this))"

fun the_output :: "string \<times> Construct \<Rightarrow> (string \<times> CfnOutputProps) list" where
  "the_output (i, CfnOutput p) = [(i, p)]"
| "the_output (i, c) = []"

text \<open>
  The outputs declared in the stack's own scope.  An output that a library
  construct declares inside itself belongs to that construct and is not among
  them.
\<close>

definition outputs :: "Stack \<Rightarrow> (string \<times> CfnOutputProps) list" where
  "outputs this = concat (map the_output (children this))"

fun is_output :: "string \<times> Construct \<Rightarrow> bool" where
  "is_output (i, CfnOutput p) = True"
| "is_output (i, c) = False"

text \<open>
  The declarations a stack ends with: the longest run of outputs at the end of
  its children, in declaration order.
\<close>

definition trailingOutputs :: "Stack \<Rightarrow> (string \<times> Construct) list" where
  "trailingOutputs this = rev (takeWhile is_output (rev (children this)))"

fun the_cluster :: "string \<times> Construct \<Rightarrow> (string \<times> ClusterProps) list" where
  "the_cluster (i, Cluster p pools) = [(i, p)]"
| "the_cluster (i, c) = []"

definition clusters :: "Stack \<Rightarrow> (string \<times> ClusterProps) list" where
  "clusters this = concat (map the_cluster (children this))"

fun poolsOf :: "Construct option \<Rightarrow> (string \<times> AddCapacityOptions) list" where
  "poolsOf (Some (Cluster p pools)) = pools"
| "poolsOf c = []"

definition tagsOf :: "Stack \<Rightarrow> handle \<Rightarrow> (string \<times> string) list" where
  "tagsOf this h = map snd (filter (\<lambda>t. fst t = h) (tags this))"

text \<open>The orderings the declared bounds are checked against.\<close>

definition capacityOrdered :: "AutoScalingGroupProps \<Rightarrow> bool" where
  "capacityOrdered p \<longleftrightarrow> minCapacity p \<le> desiredCapacity p \<and> desiredCapacity p \<le> maxCapacity p"

definition storageOrdered :: "DatabaseInstanceProps \<Rightarrow> bool" where
  "storageOrdered p \<longleftrightarrow> allocatedStorage p \<le> maxAllocatedStorage p"

definition fixedCapacity :: "AddCapacityOptions \<Rightarrow> bool" where
  "fixedCapacity c \<longleftrightarrow> cap_minCapacity c = cap_maxCapacity c"

text \<open>
  The subnet tiers of a declared network that a selection by subnet type
  picks: the names of the configured tiers of that type.
\<close>

fun tiersOf :: "Construct option \<Rightarrow> SubnetSelection \<Rightarrow> string list" where
  "tiersOf (Some (Vpc p)) sel =
     map sc_name (filter (\<lambda>c. sc_subnetType c = subnetType sel) (subnetConfiguration p))"
| "tiersOf c sel = []"

text \<open>
  The stack object that \<open>new DemoCdkStack(scope, id, props)\<close> and
  \<open>new SqlServerBahrainStack(scope, id, props)\<close> evaluate to.
\<close>

definition new_DemoCdkStack :: "App \<Rightarrow> string \<Rightarrow> StackProps option \<Rightarrow> Stack" where
  "new_DemoCdkStack scope ident props = fst (DemoCdkStack scope ident props)"

definition new_SqlServerBahrainStack :: "App \<Rightarrow> string \<Rightarrow> StackProps option \<Rightarrow> Stack" where
  "new_SqlServerBahrainStack scope ident props = fst (SqlServerBahrainStack scope ident props)"

section \<open>The finished stacks\<close>

text \<open>
  Running the two constructors on arbitrary arguments gives the following
  descriptors, in declaration order.  The properties below are read off them.
\<close>

lemmas library_calls = Stack_super_def declare_child_def update_child_def new_Vpc_def new_Cluster_def
  new_SecurityGroup_def new_DatabaseInstance_def new_ApplicationLoadBalancedFargateService_def
  new_Role_def new_AutoScalingGroup_def new_CfnOutput_def addIngressRule_def
  configureHealthCheck_def autoScaleTaskCount_def scaleOnCpuUtilization_def
  scaleOnMemoryUtilization_def addCapacity_def Tags_of_add_def

lemma DemoCdkStack_children:
  "children (new_DemoCdkStack scope ident props) =
    [(''DemoVpc'',
       Vpc \<lparr>maxAzs = 2, natGateways = 1,
            subnetConfiguration =
              [\<lparr>sc_name = ''Public'', sc_subnetType = PUBLIC, cidrMask = 24\<rparr>,
               \<lparr>sc_name = ''Private'', sc_subnetType = PRIVATE_WITH_EGRESS, cidrMask = 24\<rparr>,
               \<lparr>sc_name = ''Isolated'', sc_subnetType = PRIVATE_ISOLATED, cidrMask = 24\<rparr>]\<rparr>),
     (''DemoCluster'',
       Cluster \<lparr>cl_vpc = ''DemoVpc'', containerInsights = Some True, clusterName = None\<rparr> []),
     (''DbSecurityGroup'',
       SecurityGroup
         \<lparr>sg_vpc = ''DemoVpc'', sg_description = ''Security group for RDS instance'',
          allowAllOutbound = False\<rparr>
         [\<lparr>rule_peer = ConnectionsSecurityGroup ''DemoWebApp'' 0, rule_port = tcp 5432,
           rule_description = ''Allow Fargate service to connect to PostgreSQL''\<rparr>]),
     (''DemoDatabase'',
       DatabaseInstance
         \<lparr>engine = postgres Postgres_VER_15,
          db_instanceType = InstanceType_of T3 MICRO,
          db_vpc = ''DemoVpc'',
          db_vpcSubnets = \<lparr>subnetType = PRIVATE_ISOLATED\<rparr>,
          securityGroups = [''DbSecurityGroup''],
          databaseName = Some ''demodb'',
          allocatedStorage = 20, maxAllocatedStorage = 100,
          multiAz = False, licenseModel = None,
          deletionProtection = False, removalPolicy = DESTROY\<rparr>),
     (''DemoWebApp'',
       ApplicationLoadBalancedFargateService
         \<lparr>fs_cluster = ''DemoCluster'', cpu = 256, memoryLimitMiB = 512, desiredCount = 2,
          taskImageOptions =
            \<lparr>ti_image = fromRegistry ''nginx:alpine'', containerPort = 80,
             environment =
               [(''DB_HOST'', Attr ''DemoDatabase'' [''dbInstanceEndpointAddress'']),
                (''DB_PORT'', Attr ''DemoDatabase'' [''dbInstanceEndpointPort''])]\<rparr>,
          publicLoadBalancer = True\<rparr>
         (Some \<lparr>path = ''/'', healthyHttpCodes = ''200''\<rparr>)
         (Some \<lparr>scale_minCapacity = 2, scale_maxCapacity = 10\<rparr>)
         [(''CpuScaling'', CpuUtilization \<lparr>targetUtilizationPercent = 70\<rparr>),
          (''MemoryScaling'', MemoryUtilization \<lparr>targetUtilizationPercent = 70\<rparr>)]),
     (''Ec2SecurityGroup'',
       SecurityGroup
         \<lparr>sg_vpc = ''DemoVpc'', sg_description = ''Security group for EC2 instances'',
          allowAllOutbound = True\<rparr>
         [\<lparr>rule_peer = anyIpv4, rule_port = tcp 22, rule_description = ''Allow SSH access''\<rparr>]),
     (''Ec2InstanceRole'',
       Role \<lparr>assumedBy = ServicePrincipal ''ec2.amazonaws.com'',
             managedPolicies = [fromAwsManagedPolicyName ''AmazonSSMManagedInstanceCore'']\<rparr>),
     (''WebTierAsg'',
       AutoScalingGroup
         \<lparr>asg_vpc = ''DemoVpc'', asg_vpcSubnets = \<lparr>subnetType = PRIVATE_WITH_EGRESS\<rparr>,
          asg_instanceType = InstanceType_of M4 LARGE, machineImage = latestAmazonLinux2,
          asg_role = ''Ec2InstanceRole'', securityGroup = ''Ec2SecurityGroup'',
          minCapacity = 2, maxCapacity = 8, desiredCapacity = 2\<rparr>),
     (''AppTierAsg'',
       AutoScalingGroup
         \<lparr>asg_vpc = ''DemoVpc'', asg_vpcSubnets = \<lparr>subnetType = PRIVATE_WITH_EGRESS\<rparr>,
          asg_instanceType = InstanceType_of C4 XLARGE, machineImage = latestAmazonLinux2,
          asg_role = ''Ec2InstanceRole'', securityGroup = ''Ec2SecurityGroup'',
          minCapacity = 2, maxCapacity = 6, desiredCapacity = 2\<rparr>),
     (''WorkerTierAsg'',
       AutoScalingGroup
         \<lparr>asg_vpc = ''DemoVpc'', asg_vpcSubnets = \<lparr>subnetType = PRIVATE_WITH_EGRESS\<rparr>,
          asg_instanceType = InstanceType_of T2 LARGE, machineImage = latestAmazonLinux2,
          asg_role = ''Ec2InstanceRole'', securityGroup = ''Ec2SecurityGroup'',
          minCapacity = 1, maxCapacity = 10, desiredCapacity = 3\<rparr>),
     (''MemoryTierAsg'',
       AutoScalingGroup
         \<lparr>asg_vpc = ''DemoVpc'', asg_vpcSubnets = \<lparr>subnetType = PRIVATE_WITH_EGRESS\<rparr>,
          asg_instanceType = InstanceType_of R4 LARGE, machineImage = latestAmazonLinux2,
          asg_role = ''Ec2InstanceRole'', securityGroup = ''Ec2SecurityGroup'',
          minCapacity = 1, maxCapacity = 4, desiredCapacity = 2\<rparr>),
     (''LegacyEcsCluster'',
       Cluster
         \<lparr>cl_vpc = ''DemoVpc'', containerInsights = None,
          clusterName = Some ''legacy-ec2-cluster''\<rparr>
         [(''LegacyCapacity'',
            \<lparr>cap_instanceType = InstanceType_of C3 XLARGE,
             cap_minCapacity = 2, cap_maxCapacity = 6, cap_desiredCapacity = 2\<rparr>),
          (''LegacyCapacityM3'',
            \<lparr>cap_instanceType = InstanceType_of M3 LARGE,
             cap_minCapacity = 1, cap_maxCapacity = 4, cap_desiredCapacity = 2\<rparr>)]),
     (''LoadBalancerDNS'',
       CfnOutput
         \<lparr>out_value = Attr ''DemoWebApp'' [''loadBalancer'', ''loadBalancerDnsName''],
          out_description = ''Application Load Balancer DNS name''\<rparr>),
     (''VpcId'',
       CfnOutput \<lparr>out_value = Attr ''DemoVpc'' [''vpcId''], out_description = ''VPC ID''\<rparr>),
     (''DatabaseEndpoint'',
       CfnOutput
         \<lparr>out_value = Attr ''DemoDatabase'' [''dbInstanceEndpointAddress''],
          out_description = ''RDS Database endpoint''\<rparr>),
     (''WebTierAsgName'',
       CfnOutput
         \<lparr>out_value = Attr ''WebTierAsg'' [''autoScalingGroupName''],
          out_description = ''Web tier ASG name (M4 instances)''\<rparr>),
     (''LegacyEcsClusterName'',
       CfnOutput
         \<lparr>out_value = Attr ''LegacyEcsCluster'' [''clusterName''],
          out_description = ''Legacy ECS cluster with EC2 capacity''\<rparr>)]"
  by (simp add: new_DemoCdkStack_def DemoCdkStack_def library_calls Let_def)

lemma DemoCdkStack_tags:
  "tags (new_DemoCdkStack scope ident props) =
    [(''WebTierAsg'', ''Tier'', ''Web''),
     (''WebTierAsg'', ''InstanceGeneration'', ''Previous''),
     (''AppTierAsg'', ''Tier'', ''Application''),
     (''AppTierAsg'', ''InstanceGeneration'', ''Previous''),
     (''WorkerTierAsg'', ''Tier'', ''Worker''),
     (''WorkerTierAsg'', ''InstanceGeneration'', ''Previous''),
     (''MemoryTierAsg'', ''Tier'', ''Memory''),
     (''MemoryTierAsg'', ''InstanceGeneration'', ''Previous'')]"
  by (simp add: new_DemoCdkStack_def DemoCdkStack_def library_calls Let_def)

lemma SqlServerBahrainStack_children:
  "children (new_SqlServerBahrainStack scope ident props) =
    [(''SqlServerVpc'',
       Vpc \<lparr>maxAzs = 2, natGateways = 1,
            subnetConfiguration =
              [\<lparr>sc_name = ''Public'', sc_subnetType = PUBLIC, cidrMask = 24\<rparr>,
               \<lparr>sc_name = ''Private'', sc_subnetType = PRIVATE_WITH_EGRESS, cidrMask = 24\<rparr>,
               \<lparr>sc_name = ''Isolated'', sc_subnetType = PRIVATE_ISOLATED, cidrMask = 24\<rparr>]\<rparr>),
     (''SqlServerSecurityGroup'',
       SecurityGroup
         \<lparr>sg_vpc = ''SqlServerVpc'',
          sg_description = ''Security group for SQL Server RDS instance'',
          allowAllOutbound = False\<rparr> []),
     (''SqlServerEnterprise'',
       DatabaseInstance
         \<lparr>engine = sqlServerEe SqlServer_VER_15,
          db_instanceType = InstanceType_of R5 XLARGE24,
          db_vpc = ''SqlServerVpc'',
          db_vpcSubnets = \<lparr>subnetType = PRIVATE_ISOLATED\<rparr>,
          securityGroups = [''SqlServerSecurityGroup''],
          databaseName = None,
          allocatedStorage = 200, maxAllocatedStorage = 1000,
          multiAz = True, licenseModel = Some LICENSE_INCLUDED,
          deletionProtection = False, removalPolicy = DESTROY\<rparr>),
     (''SqlServerEndpoint'',
       CfnOutput
         \<lparr>out_value = Attr ''SqlServerEnterprise'' [''dbInstanceEndpointAddress''],
          out_description = ''SQL Server Enterprise endpoint''\<rparr>),
     (''SqlServerVpcId'',
       CfnOutput
         \<lparr>out_value = Attr ''SqlServerVpc'' [''vpcId''],
          out_description = ''SQL Server VPC ID''\<rparr>)]"
  by (simp add: new_SqlServerBahrainStack_def SqlServerBahrainStack_def library_calls Let_def)

text \<open>
  \<open>bin/demo-cdk.ts\<close> builds the primary stack in a fresh application and the
  Bahrain stack in the application that already holds the primary one.
\<close>

lemma demo_cdk_stacks:
  "demo_cdk =
     (new_DemoCdkStack new_App ''DemoCdkStack'' (Some \<lparr>env = None, description = None\<rparr>),
      new_SqlServerBahrainStack \<lparr>stackIds = [''DemoCdkStack'']\<rparr> ''SqlServerBahrainStack''
        (Some \<lparr>env = Some \<lparr>account = None, region = Some ''me-south-1''\<rparr>,
               description =
                 Some ''SQL Server Enterprise Multi-AZ (db.r5.24xlarge) in Bahrain region''\<rparr>),
      \<lparr>stackIds = [''DemoCdkStack'', ''SqlServerBahrainStack'']\<rparr>)"
  by (simp add: demo_cdk_def new_DemoCdkStack_def new_SqlServerBahrainStack_def
      DemoCdkStack_def SqlServerBahrainStack_def new_App_def library_calls Let_def)

text \<open>
  The two readings of a stack's outputs do not depend on what else the stack
  holds: a child that is not an output can be added anywhere without changing
  the outputs, and the outputs a stack ends with are fixed by the last child
  that is not an output and what follows it.
\<close>

lemma the_output_other: "\<not> is_output c \<Longrightarrow> the_output c = []"
  by (cases c rule: is_output.cases) simp_all

lemma outputs_insert:
  "\<not> is_output c \<Longrightarrow>
     outputs (this\<lparr>children := xs @ c # ys\<rparr>) = outputs (this\<lparr>children := xs @ ys\<rparr>)"
  by (simp add: outputs_def the_output_other)

lemma trailingOutputs_suffix:
  assumes "\<not> is_output c" and "list_all is_output ys"
  shows "trailingOutputs (this\<lparr>children := xs @ c # ys\<rparr>) = ys"
proof -
  from assms(2) have "\<And>x. x \<in> set (rev ys) \<Longrightarrow> is_output x"
    by (simp add: list_all_iff)
  then have "takeWhile is_output (rev ys @ c # rev xs) =
      rev ys @ takeWhile is_output (c # rev xs)"
    by (rule takeWhile_append2)
  with assms(1) show ?thesis
    by (simp add: trailingOutputs_def)
qed

section \<open>Properties of the declared configuration\<close>

subsection \<open>The database's security group\<close>

text \<open>
  Claim C1.  In the primary stack the security group \<open>DbSecurityGroup\<close> is
  declared with \<open>allowAllOutbound\<close> false and carries exactly one ingress
  rule: the first security group of the load-balanced service's connections
  may reach TCP port 5432.  The database instance uses this group and no
  other, and the group admits a source on a port only if it is that source
  on that port; no other source, on no port, is admitted.
\<close>

theorem db_ingress_only_from_service:
  "lookup (new_DemoCdkStack scope ident props) ''DbSecurityGroup'' =
     Some (SecurityGroup
       \<lparr>sg_vpc = ''DemoVpc'', sg_description = ''Security group for RDS instance'',
        allowAllOutbound = False\<rparr>
       [\<lparr>rule_peer = ConnectionsSecurityGroup ''DemoWebApp'' 0, rule_port = tcp 5432,
         rule_description = ''Allow Fargate service to connect to PostgreSQL''\<rparr>])
   \<and> map (\<lambda>(i, p). (i, securityGroups p))
         (databaseInstances (new_DemoCdkStack scope ident props)) =
       [(''DemoDatabase'', [''DbSecurityGroup''])]
   \<and> (admits (new_DemoCdkStack scope ident props) ''DbSecurityGroup'' src port \<longleftrightarrow>
        src = ConnectionsSecurityGroup ''DemoWebApp'' 0 \<and> port = tcp 5432)"
  by (auto simp add: lookup_def admits_def databaseInstances_def DemoCdkStack_children)

subsection \<open>Capacity ranges of the auto-scaling groups\<close>

text \<open>
  Claim C2.  Every auto-scaling group declared in the primary stack has
  \<open>minCapacity \<le> desiredCapacity \<le> maxCapacity\<close>.  There are four of
  them, tagged Web, Application, Worker and Memory; the web tier declares
  2, 2, 8 and the worker tier 1, 3, 10 (minimum, desired, maximum).
\<close>

theorem asg_capacity_ordered:
  "(\<forall>(i, p) \<in> set (autoScalingGroups (new_DemoCdkStack scope ident props)).
      capacityOrdered p)
   \<and> map (\<lambda>(i, p). (i, map_of (tagsOf (new_DemoCdkStack scope ident props) i) ''Tier'',
                      minCapacity p, desiredCapacity p, maxCapacity p))
        (autoScalingGroups (new_DemoCdkStack scope ident props)) =
       [(''WebTierAsg'', Some ''Web'', 2, 2, 8),
        (''AppTierAsg'', Some ''Application'', 2, 2, 6),
        (''WorkerTierAsg'', Some ''Worker'', 1, 3, 10),
        (''MemoryTierAsg'', Some ''Memory'', 1, 2, 4)]"
  by (simp add: autoScalingGroups_def tagsOf_def capacityOrdered_def
      DemoCdkStack_children DemoCdkStack_tags)

text \<open>
  The worker tier of the stack that \<open>bin/demo-cdk.ts\<close> declares is one of
  these groups, so its range is ordered.
\<close>

theorem asg_capacity_ordered_witness:
  "(''WorkerTierAsg'',
     \<lparr>asg_vpc = ''DemoVpc'', asg_vpcSubnets = \<lparr>subnetType = PRIVATE_WITH_EGRESS\<rparr>,
      asg_instanceType = InstanceType_of T2 LARGE, machineImage = latestAmazonLinux2,
      asg_role = ''Ec2InstanceRole'', securityGroup = ''Ec2SecurityGroup'',
      minCapacity = 1, maxCapacity = 10, desiredCapacity = 3\<rparr>)
     \<in> set (autoScalingGroups
         (new_DemoCdkStack new_App ''DemoCdkStack'' (Some \<lparr>env = None, description = None\<rparr>)))
   \<and> capacityOrdered
       \<lparr>asg_vpc = ''DemoVpc'', asg_vpcSubnets = \<lparr>subnetType = PRIVATE_WITH_EGRESS\<rparr>,
        asg_instanceType = InstanceType_of T2 LARGE, machineImage = latestAmazonLinux2,
        asg_role = ''Ec2InstanceRole'', securityGroup = ''Ec2SecurityGroup'',
        minCapacity = 1, maxCapacity = 10, desiredCapacity = 3\<rparr>"
proof -
  let ?S = "new_DemoCdkStack new_App ''DemoCdkStack'' (Some \<lparr>env = None, description = None\<rparr>)"
  let ?w = "\<lparr>asg_vpc = ''DemoVpc'', asg_vpcSubnets = \<lparr>subnetType = PRIVATE_WITH_EGRESS\<rparr>,
      asg_instanceType = InstanceType_of T2 LARGE, machineImage = latestAmazonLinux2,
      asg_role = ''Ec2InstanceRole'', securityGroup = ''Ec2SecurityGroup'',
      minCapacity = 1, maxCapacity = 10, desiredCapacity = 3\<rparr>"
  have mem: "(''WorkerTierAsg'', ?w) \<in> set (autoScalingGroups ?S)"
    by (simp add: autoScalingGroups_def DemoCdkStack_children)
  have "\<forall>(i, p) \<in> set (autoScalingGroups ?S). capacityOrdered p"
    using asg_capacity_ordered
      [of new_App "''DemoCdkStack''" "Some \<lparr>env = None, description = None\<rparr>"]
    by (rule conjunct1)
  with mem have "capacityOrdered ?w" by blast
  with mem show ?thesis by (rule conjI)
qed

subsection \<open>Storage bounds of the database instances\<close>

text \<open>
  Claim C3.  Every database instance declared in either stack has
  \<open>allocatedStorage \<le> maxAllocatedStorage\<close>: the primary stack declares one
  instance with 20 and 100, the Bahrain stack one instance with 200 and 1000.
\<close>

theorem database_storage_ordered:
  "(\<forall>(i, p) \<in> set (databaseInstances (new_DemoCdkStack scope ident props) @
                    databaseInstances (new_SqlServerBahrainStack scope' ident' props')).
      storageOrdered p)
   \<and> map (\<lambda>(i, p). (i, allocatedStorage p, maxAllocatedStorage p))
        (databaseInstances (new_DemoCdkStack scope ident props)) =
       [(''DemoDatabase'', 20, 100)]
   \<and> map (\<lambda>(i, p). (i, allocatedStorage p, maxAllocatedStorage p))
        (databaseInstances (new_SqlServerBahrainStack scope' ident' props')) =
       [(''SqlServerEnterprise'', 200, 1000)]"
  by (simp add: databaseInstances_def storageOrdered_def
      DemoCdkStack_children SqlServerBahrainStack_children)

text \<open>
  The instance of the Bahrain stack that \<open>bin/demo-cdk.ts\<close> declares is among
  them, so its storage bounds are ordered.
\<close>

theorem database_storage_ordered_witness:
  "(''SqlServerEnterprise'',
     \<lparr>engine = sqlServerEe SqlServer_VER_15,
      db_instanceType = InstanceType_of R5 XLARGE24,
      db_vpc = ''SqlServerVpc'',
      db_vpcSubnets = \<lparr>subnetType = PRIVATE_ISOLATED\<rparr>,
      securityGroups = [''SqlServerSecurityGroup''],
      databaseName = None,
      allocatedStorage = 200, maxAllocatedStorage = 1000,
      multiAz = True, licenseModel = Some LICENSE_INCLUDED,
      deletionProtection = False, removalPolicy = DESTROY\<rparr>)
     \<in> set (databaseInstances
           (new_DemoCdkStack new_App ''DemoCdkStack''
              (Some \<lparr>env = None, description = None\<rparr>)) @
         databaseInstances
           (new_SqlServerBahrainStack \<lparr>stackIds = [''DemoCdkStack'']\<rparr> ''SqlServerBahrainStack''
              (Some \<lparr>env = Some \<lparr>account = None, region = Some ''me-south-1''\<rparr>,
                     description = Some
                       ''SQL Server Enterprise Multi-AZ (db.r5.24xlarge) in Bahrain region''\<rparr>)))
   \<and> storageOrdered
       \<lparr>engine = sqlServerEe SqlServer_VER_15,
        db_instanceType = InstanceType_of R5 XLARGE24,
        db_vpc = ''SqlServerVpc'',
        db_vpcSubnets = \<lparr>subnetType = PRIVATE_ISOLATED\<rparr>,
        securityGroups = [''SqlServerSecurityGroup''],
        databaseName = None,
        allocatedStorage = 200, maxAllocatedStorage = 1000,
        multiAz = True, licenseModel = Some LICENSE_INCLUDED,
        deletionProtection = False, removalPolicy = DESTROY\<rparr>"
proof -
  let ?D = "new_DemoCdkStack new_App ''DemoCdkStack'' (Some \<lparr>env = None, description = None\<rparr>)"
  let ?B = "new_SqlServerBahrainStack \<lparr>stackIds = [''DemoCdkStack'']\<rparr> ''SqlServerBahrainStack''
              (Some \<lparr>env = Some \<lparr>account = None, region = Some ''me-south-1''\<rparr>,
                     description = Some
                       ''SQL Server Enterprise Multi-AZ (db.r5.24xlarge) in Bahrain region''\<rparr>)"
  let ?w = "\<lparr>engine = sqlServerEe SqlServer_VER_15,
      db_instanceType = InstanceType_of R5 XLARGE24,
      db_vpc = ''SqlServerVpc'',
      db_vpcSubnets = \<lparr>subnetType = PRIVATE_ISOLATED\<rparr>,
      securityGroups = [''SqlServerSecurityGroup''],
      databaseName = None,
      allocatedStorage = 200, maxAllocatedStorage = 1000,
      multiAz = True, licenseModel = Some LICENSE_INCLUDED,
      deletionProtection = False, removalPolicy = DESTROY\<rparr>"
  have mem: "(''SqlServerEnterprise'', ?w) \<in> set (databaseInstances ?D @ databaseInstances ?B)"
    by (simp add: databaseInstances_def SqlServerBahrainStack_children)
  have "\<forall>(i, p) \<in> set (databaseInstances ?D @ databaseInstances ?B). storageOrdered p"
    using database_storage_ordered
      [of new_App "''DemoCdkStack''" "Some \<lparr>env = None, description = None\<rparr>"
          "\<lparr>stackIds = [''DemoCdkStack'']\<rparr>" "''SqlServerBahrainStack''"
          "Some \<lparr>env = Some \<lparr>account = None, region = Some ''me-south-1''\<rparr>,
                 description = Some
                   ''SQL Server Enterprise Multi-AZ (db.r5.24xlarge) in Bahrain region''\<rparr>"]
    by (rule conjunct1)
  with mem have "storageOrdered ?w" by blast
  with mem show ?thesis by (rule conjI)
qed

subsection \<open>The Bahrain database\<close>

text \<open>
  Claim C4.  The Bahrain stack declares one database instance, with \<open>multiAz\<close>
  true; its subnet selection is by the subnet type \<open>PRIVATE_ISOLATED\<close>, which
  in the stack's network picks the tier named Isolated and no other.
\<close>

theorem bahrain_database_multi_az_isolated:
  "map (\<lambda>(i, p). (i, multiAz p, db_vpc p, db_vpcSubnets p))
     (databaseInstances (new_SqlServerBahrainStack scope ident props)) =
     [(''SqlServerEnterprise'', True, ''SqlServerVpc'', \<lparr>subnetType = PRIVATE_ISOLATED\<rparr>)]
   \<and> tiersOf (lookup (new_SqlServerBahrainStack scope ident props) ''SqlServerVpc'')
       \<lparr>subnetType = PRIVATE_ISOLATED\<rparr> = [''Isolated'']"
  by (simp add: databaseInstances_def lookup_def SqlServerBahrainStack_children)

subsection \<open>The capacity pools of the second cluster\<close>

text \<open>
  Claim C6 reads the two pools of the cluster \<open>LegacyEcsCluster\<close> as
  fixed-capacity, that is with minimum capacity equal to maximum capacity.
  In the stack that \<open>bin/demo-cdk.ts\<close> declares this is not so.
\<close>

theorem legacy_pools_fixed_counterexample:
  "\<not> (length (poolsOf (lookup
          (new_DemoCdkStack new_App ''DemoCdkStack'' (Some \<lparr>env = None, description = None\<rparr>))
          ''LegacyEcsCluster'')) = 2
      \<and> list_all fixedCapacity (map snd (poolsOf (lookup
          (new_DemoCdkStack new_App ''DemoCdkStack'' (Some \<lparr>env = None, description = None\<rparr>))
          ''LegacyEcsCluster''))))"
  by (simp add: lookup_def fixedCapacity_def DemoCdkStack_children)

text \<open>
  Claim C6, amended.  The primary stack's second cluster, the only one given a
  name of its own (\<open>legacy-ec2-cluster\<close>), has exactly two capacity pools
  attached, and both have a range: \<open>LegacyCapacity\<close> with minimum 2, desired
  2, maximum 6, and \<open>LegacyCapacityM3\<close> with minimum 1, desired 2, maximum 4.
  Neither is fixed-capacity.
\<close>

theorem legacy_cluster_two_ranged_pools:
  "map (\<lambda>(i, c). (i, clusterName c)) (clusters (new_DemoCdkStack scope ident props)) =
     [(''DemoCluster'', None), (''LegacyEcsCluster'', Some ''legacy-ec2-cluster'')]
   \<and> poolsOf (lookup (new_DemoCdkStack scope ident props) ''LegacyEcsCluster'') =
     [(''LegacyCapacity'',
        \<lparr>cap_instanceType = InstanceType_of C3 XLARGE,
         cap_minCapacity = 2, cap_maxCapacity = 6, cap_desiredCapacity = 2\<rparr>),
      (''LegacyCapacityM3'',
        \<lparr>cap_instanceType = InstanceType_of M3 LARGE,
         cap_minCapacity = 1, cap_maxCapacity = 4, cap_desiredCapacity = 2\<rparr>)]
   \<and> map fixedCapacity
       (map snd (poolsOf (lookup (new_DemoCdkStack scope ident props) ''LegacyEcsCluster''))) =
     [False, False]"
  by (simp add: lookup_def clusters_def fixedCapacity_def DemoCdkStack_children)

subsection \<open>The load-balanced container service\<close>

text \<open>
  Claim C7.  The primary stack declares the load-balanced service \<open>DemoWebApp\<close>
  with a public load balancer; its task count scales between 2 and 10; it has
  a CPU and a memory scaling policy, both with target utilisation 70 percent;
  its health check probes the path \<open>/\<close> and accepts the HTTP code 200 only.
\<close>

theorem web_app_service_declared:
  "lookup (new_DemoCdkStack scope ident props) ''DemoWebApp'' =
     Some (ApplicationLoadBalancedFargateService
       \<lparr>fs_cluster = ''DemoCluster'', cpu = 256, memoryLimitMiB = 512, desiredCount = 2,
        taskImageOptions =
          \<lparr>ti_image = fromRegistry ''nginx:alpine'', containerPort = 80,
           environment =
             [(''DB_HOST'', Attr ''DemoDatabase'' [''dbInstanceEndpointAddress'']),
              (''DB_PORT'', Attr ''DemoDatabase'' [''dbInstanceEndpointPort''])]\<rparr>,
        publicLoadBalancer = True\<rparr>
       (Some \<lparr>path = ''/'', healthyHttpCodes = ''200''\<rparr>)
       (Some \<lparr>scale_minCapacity = 2, scale_maxCapacity = 10\<rparr>)
       [(''CpuScaling'', CpuUtilization \<lparr>targetUtilizationPercent = 70\<rparr>),
        (''MemoryScaling'', MemoryUtilization \<lparr>targetUtilizationPercent = 70\<rparr>)])"
  by (simp add: lookup_def DemoCdkStack_children)

subsection \<open>The stack outputs\<close>

text \<open>
  Claim C8.  The constructor of the primary stack ends by declaring outputs,
  exactly five of them, and it declares no output anywhere else.  In order
  they are \<open>LoadBalancerDNS\<close> (the load balancer's DNS name), \<open>VpcId\<close> (the
  network's identifier), \<open>DatabaseEndpoint\<close> (the database's endpoint
  address), \<open>WebTierAsgName\<close> (the web tier group's name) and
  \<open>LegacyEcsClusterName\<close> (the second cluster's name).  The statement is
  about the constructor's own declarations in the stack's scope: the longest
  run of outputs that the stack's children end with is these five, and the
  scope holds no output besides them.
\<close>

theorem five_outputs_declared_last:
  "trailingOutputs (new_DemoCdkStack scope ident props) =
     [(''LoadBalancerDNS'',
        CfnOutput
          \<lparr>out_value = Attr ''DemoWebApp'' [''loadBalancer'', ''loadBalancerDnsName''],
           out_description = ''Application Load Balancer DNS name''\<rparr>),
      (''VpcId'',
        CfnOutput \<lparr>out_value = Attr ''DemoVpc'' [''vpcId''], out_description = ''VPC ID''\<rparr>),
      (''DatabaseEndpoint'',
        CfnOutput
          \<lparr>out_value = Attr ''DemoDatabase'' [''dbInstanceEndpointAddress''],
           out_description = ''RDS Database endpoint''\<rparr>),
      (''WebTierAsgName'',
        CfnOutput
          \<lparr>out_value = Attr ''WebTierAsg'' [''autoScalingGroupName''],
           out_description = ''Web tier ASG name (M4 instances)''\<rparr>),
      (''LegacyEcsClusterName'',
        CfnOutput
          \<lparr>out_value = Attr ''LegacyEcsCluster'' [''clusterName''],
           out_description = ''Legacy ECS cluster with EC2 capacity''\<rparr>)]
   \<and> map (\<lambda>(i, p). (i, CfnOutput p)) (outputs (new_DemoCdkStack scope ident props)) =
       trailingOutputs (new_DemoCdkStack scope ident props)"
  by (simp add: trailingOutputs_def outputs_def DemoCdkStack_children)

subsection \<open>The primary stack's database\<close>

text \<open>
  Claim C9.  The primary stack declares one database instance, with \<open>multiAz\<close>
  false, deletion protection off and the removal policy \<open>DESTROY\<close>; its subnet
  selection is by the subnet type \<open>PRIVATE_ISOLATED\<close>, which in the stack's
  network picks the tier named Isolated.
\<close>

theorem demo_database_single_zone_unprotected:
  "map (\<lambda>(i, p). (i, multiAz p, deletionProtection p, removalPolicy p, db_vpc p, db_vpcSubnets p))
     (databaseInstances (new_DemoCdkStack scope ident props)) =
     [(''DemoDatabase'', False, False, DESTROY, ''DemoVpc'', \<lparr>subnetType = PRIVATE_ISOLATED\<rparr>)]
   \<and> tiersOf (lookup (new_DemoCdkStack scope ident props) ''DemoVpc'')
       \<lparr>subnetType = PRIVATE_ISOLATED\<rparr> = [''Isolated'']"
  by (simp add: databaseInstances_def lookup_def DemoCdkStack_children)

subsection \<open>The security group of the compute pools\<close>

text \<open>
  Claim C10.  All four auto-scaling groups of the primary stack use the
  security group \<open>Ec2SecurityGroup\<close>.  That group is declared with
  \<open>allowAllOutbound\<close> true and one ingress rule, which admits any IPv4 address
  on TCP port 22.
\<close>

theorem ec2_security_group_ssh_open:
  "lookup (new_DemoCdkStack scope ident props) ''Ec2SecurityGroup'' =
     Some (SecurityGroup
       \<lparr>sg_vpc = ''DemoVpc'', sg_description = ''Security group for EC2 instances'',
        allowAllOutbound = True\<rparr>
       [\<lparr>rule_peer = anyIpv4, rule_port = tcp 22, rule_description = ''Allow SSH access''\<rparr>])
   \<and> map (\<lambda>(i, p). (i, securityGroup p)) (autoScalingGroups (new_DemoCdkStack scope ident props)) =
       [(''WebTierAsg'', ''Ec2SecurityGroup''), (''AppTierAsg'', ''Ec2SecurityGroup''),
        (''WorkerTierAsg'', ''Ec2SecurityGroup''), (''MemoryTierAsg'', ''Ec2SecurityGroup'')]
   \<and> admits (new_DemoCdkStack scope ident props) ''Ec2SecurityGroup'' anyIpv4 (tcp 22)"
  by (simp add: lookup_def admits_def autoScalingGroups_def DemoCdkStack_children)

end
